theory Spec2Isabelle
  imports Complex_Main
begin

section \<open>Numbers and the Math functions\<close>

text \<open>
  The program computes with JavaScript Numbers. They are modelled as exact, finite reals:
  NaN, the infinities, the signed zero and rounding are outside this model, and every
  statement below is one about the formulas of the program over the reals.
  \<open>canvas.width\<close> and \<open>canvas.height\<close> are unsigned integers in the DOM and are naturals here.
\<close>

definition Math_hypot :: "real \<Rightarrow> real \<Rightarrow> real" where
  "Math_hypot a b = sqrt (a * a + b * b)"

definition Math_atan2 :: "real \<Rightarrow> real \<Rightarrow> real" where
  \<comment> \<open>the angle of the point \<open>(x, y)\<close> in \<open>(-\<pi>, \<pi>]\<close>, and 0 at the origin\<close>
  "Math_atan2 y x =
     (if 0 < x then arctan (y / x)
      else if x < 0 then (if 0 \<le> y then arctan (y / x) + pi else arctan (y / x) - pi)
      else if 0 < y then pi / 2
      else if y < 0 then - (pi / 2)
      else 0)"

section \<open>Data model\<close>

text \<open>
  A keypoint is an object \<open>{x, y}\<close>. The program tests \<open>x\<close> against \<open>undefined\<close> before it
  uses the point and reads \<open>y\<close> unguarded, so \<open>x\<close> is optional here and \<open>y\<close> is not.
  An entry of the keypoint array may be null (the program tests each of the first two entries
  for truthiness), and both fields of a detection are optional.
\<close>

record keypoint =
  kp_x :: "real option"
  kp_y :: real

record bbox =
  originX :: real
  originY :: real
  bb_width :: real
  bb_height :: real

record detection =
  boundingBox :: "bbox option"
  keypoints :: "keypoint option list option"

text \<open>
  A redaction box is an object \<open>{x, y, width, height, type}\<close> with \<open>type\<close> one of
  \<open>'rotated'\<close> and \<open>'standard'\<close>; only a rotated box has an \<open>angle\<close>. For a rotated box
  \<open>(x, y)\<close> is the centre, for a standard box the top-left corner.
\<close>

datatype redactionBox =
    Rotated (box_x: real) (box_y: real) (box_width: real) (box_height: real) (box_angle: real)
  | Standard (box_x: real) (box_y: real) (box_width: real) (box_height: real)

section \<open>Box calculator: \<open>calculateRedactionBoxes\<close>\<close>

definition toPixels :: "real \<Rightarrow> nat \<Rightarrow> real" where
  \<comment> \<open>\<open>v < 2 ? v * E : v\<close>, written out four times in the source\<close>
  "toPixels v E = (if v < 2 then v * real E else v)"

definition eyePair :: "detection \<Rightarrow> ((real \<times> real) \<times> (real \<times> real)) option" where
  \<comment> \<open>the guards of the keypoint branch: the right and the left eye as \<open>(x, y)\<close>, when usable\<close>
  "eyePair det =
     (case keypoints det of
        None \<Rightarrow> None
      | Some kps \<Rightarrow>
          if length kps \<ge> 2 then
            (case kps ! 0 of
               None \<Rightarrow> None
             | Some rightEye \<Rightarrow>
                 (case kps ! 1 of
                    None \<Rightarrow> None
                  | Some leftEye \<Rightarrow>
                      (case kp_x rightEye of
                         None \<Rightarrow> None
                       | Some rx \<Rightarrow>
                           (case kp_x leftEye of
                              None \<Rightarrow> None
                            | Some lx \<Rightarrow> Some ((rx, kp_y rightEye), (lx, kp_y leftEye))))))
          else None)"

definition rotatedBox :: "nat \<Rightarrow> nat \<Rightarrow> real \<times> real \<Rightarrow> real \<times> real \<Rightarrow> redactionBox" where
  "rotatedBox canvas_w canvas_h rightEye leftEye =
     (let rightEyeX = toPixels (fst rightEye) canvas_w;
          rightEyeY = toPixels (snd rightEye) canvas_h;
          leftEyeX = toPixels (fst leftEye) canvas_w;
          leftEyeY = toPixels (snd leftEye) canvas_h;
          dx = leftEyeX - rightEyeX;
          dy = leftEyeY - rightEyeY;
          angle = Math_atan2 dy dx;
          distance = Math_hypot dx dy;
          centerX = (rightEyeX + leftEyeX) / 2;
          centerY = (rightEyeY + leftEyeY) / 2;
          barWidth = distance * 2.5;
          barHeight = distance * 0.5
      in Rotated centerX centerY barWidth barHeight angle)"

definition fallbackBox :: "bbox \<Rightarrow> redactionBox" where
  "fallbackBox bb =
     (let eyeY = originY bb + bb_height bb * 0.3;
          eyeWidth = bb_width bb * 0.8;
          eyeHeight = bb_height bb * 0.2
      in Standard (originX bb + bb_width bb * 0.1) (eyeY - eyeHeight / 2) eyeWidth eyeHeight)"

definition boxesFor :: "nat \<Rightarrow> nat \<Rightarrow> detection \<Rightarrow> redactionBox list" where
  \<comment> \<open>the boxes one iteration of the loop pushes\<close>
  "boxesFor canvas_w canvas_h det =
     (case eyePair det of
        Some (rightEye, leftEye) \<Rightarrow> [rotatedBox canvas_w canvas_h rightEye leftEye]
      | None \<Rightarrow>
          (case boundingBox det of
             Some bb \<Rightarrow> [fallbackBox bb]
           | None \<Rightarrow> []))"

fun pushBoxes :: "nat \<Rightarrow> nat \<Rightarrow> detection list \<Rightarrow> redactionBox list \<Rightarrow> redactionBox list" where
  "pushBoxes canvas_w canvas_h [] boxes = boxes"
| "pushBoxes canvas_w canvas_h (det # dets) boxes =
     pushBoxes canvas_w canvas_h dets (boxes @ boxesFor canvas_w canvas_h det)"

definition calculateRedactionBoxes :: "nat \<Rightarrow> nat \<Rightarrow> detection list \<Rightarrow> redactionBox list" where
  "calculateRedactionBoxes canvas_w canvas_h dets = pushBoxes canvas_w canvas_h dets []"

text \<open>
  The same loop over the array as the detector hands it over, whose entries may be null or
  undefined. The loop body starts by reading \<open>det.keypoints\<close>, which throws a TypeError on
  such an entry; \<open>redactionBoxes\<close> then holds the boxes pushed so far. On entries that are
  all objects the loop is \<open>pushBoxes\<close>.
\<close>

datatype boxes_result = BoxesDone "redactionBox list" | BoxesThrown "redactionBox list"

fun pushBoxes_entries ::
  "nat \<Rightarrow> nat \<Rightarrow> detection option list \<Rightarrow> redactionBox list \<Rightarrow> boxes_result" where
  "pushBoxes_entries canvas_w canvas_h [] boxes = BoxesDone boxes"
| "pushBoxes_entries canvas_w canvas_h (None # dets) boxes = BoxesThrown boxes"
| "pushBoxes_entries canvas_w canvas_h (Some det # dets) boxes =
     pushBoxes_entries canvas_w canvas_h dets (boxes @ boxesFor canvas_w canvas_h det)"

definition calculateRedactionBoxes_entries ::
  "nat \<Rightarrow> nat \<Rightarrow> detection option list \<Rightarrow> boxes_result" where
  "calculateRedactionBoxes_entries canvas_w canvas_h dets =
     pushBoxes_entries canvas_w canvas_h dets []"

section \<open>Hit tester: \<open>findBoxAt\<close>\<close>

fun containsPoint :: "real \<Rightarrow> real \<Rightarrow> redactionBox \<Rightarrow> bool" where
  \<comment> \<open>the containment test of the loop body, by box type\<close>
  "containsPoint x y (Rotated x0 y0 w h a) =
     (let dx = x - x0;
          dy = y - y0;
          cos' = cos (- a);
          sin' = sin (- a);
          localX = dx * cos' - dy * sin';
          localY = dx * sin' + dy * cos'
      in \<bar>localX\<bar> \<le> w / 2 \<and> \<bar>localY\<bar> \<le> h / 2)"
| "containsPoint x y (Standard x0 y0 w h) =
     (x \<ge> x0 \<and> x \<le> x0 + w \<and> y \<ge> y0 \<and> y \<le> y0 + h)"

text \<open>
  The loop \<open>for (i = length - 1; i >= 0; i--)\<close>. The first argument counts the indices
  still to be tested, so \<open>Suc i\<close> is the iteration that tests index \<open>i\<close>. The program returns
  the box object itself, a reference to an element of \<open>redactionBoxes\<close>; the model returns
  its index in that array, and \<open>findBoxAt_box\<close> the box found there.
\<close>

fun findBoxAt_from :: "nat \<Rightarrow> real \<Rightarrow> real \<Rightarrow> redactionBox list \<Rightarrow> nat option" where
  "findBoxAt_from 0 x y boxes = None"
| "findBoxAt_from (Suc i) x y boxes =
     (if containsPoint x y (boxes ! i) then Some i else findBoxAt_from i x y boxes)"

definition findBoxAt :: "real \<Rightarrow> real \<Rightarrow> redactionBox list \<Rightarrow> nat option" where
  "findBoxAt x y boxes = findBoxAt_from (length boxes) x y boxes"

definition findBoxAt_box :: "real \<Rightarrow> real \<Rightarrow> redactionBox list \<Rightarrow> redactionBox option" where
  "findBoxAt_box x y boxes = map_option (\<lambda>i. boxes ! i) (findBoxAt x y boxes)"

section \<open>Application state and rendering\<close>

text \<open>
  The drawing surface is kept as the bitmap last written by \<open>putImageData\<close> and the
  rectangles drawn over it since, in drawing order. A pixel buffer is an opaque identifier.
\<close>

type_synonym ImageData = nat

datatype paint = FillRect redactionBox | StrokeRect redactionBox

record surface =
  bitmap :: "ImageData option"
  overlay :: "paint list"

text \<open>
  The module's global variables. \<open>draggedBox\<close> is a reference to one of the objects in
  \<open>redactionBoxes\<close> (null when idle), kept as the index of that object: the hit tester
  returns an element of the current box set at gesture start, and the properties of the move
  handlers below are stated for an index inside the box set. \<open>detector\<close> records whether the
  detector handle is non-null; \<open>status\<close> is the text of the status line with its error flag.
\<close>

record state =
  detector :: bool
  canvas_width :: nat
  canvas_height :: nat
  ctx :: surface
  originalImageData :: "ImageData option"
  detections :: "detection option list"
  redactionBoxes :: "redactionBox list"
  draggedBox :: "nat option"
  dragOffset :: "real \<times> real"
  status :: "string \<times> bool"
  downloadBtn_disabled :: bool
  cursor :: string
  debugMode :: bool

definition setStatus :: "string \<Rightarrow> bool \<Rightarrow> state \<Rightarrow> state" where
  "setStatus msg isError s = s\<lparr>status := (msg, isError)\<rparr>"

definition putImageData :: "ImageData \<Rightarrow> surface \<Rightarrow> surface" where
  \<comment> \<open>the buffer has the size of the canvas: it replaces everything drawn so far\<close>
  "putImageData im c = c\<lparr>bitmap := Some im, overlay := []\<rparr>"

fun drawBox :: "bool \<Rightarrow> redactionBox \<Rightarrow> paint list" where
  "drawBox debug (Rotated x y w h a) =
     (if debug then [FillRect (Rotated x y w h a), StrokeRect (Rotated x y w h a)]
      else [FillRect (Rotated x y w h a)])"
| "drawBox debug (Standard x y w h) = [FillRect (Standard x y w h)]"

fun drawBoxes :: "bool \<Rightarrow> redactionBox list \<Rightarrow> surface \<Rightarrow> surface" where
  "drawBoxes debug [] c = c"
| "drawBoxes debug (box # boxes) c =
     drawBoxes debug boxes (c\<lparr>overlay := overlay c @ drawBox debug box\<rparr>)"

definition drawRedactionBoxes :: "state \<Rightarrow> state" where
  "drawRedactionBoxes s = s\<lparr>ctx := drawBoxes (debugMode s) (redactionBoxes s) (ctx s)\<rparr>"

definition redrawCanvas :: "state \<Rightarrow> state" where
  "redrawCanvas s =
     drawRedactionBoxes
       (case originalImageData s of
          Some im \<Rightarrow> s\<lparr>ctx := putImageData im (ctx s)\<rparr>
        | None \<Rightarrow> s)"

section \<open>Detection pass: the click handler of \<open>detectBtn\<close>\<close>

text \<open>
  \<open>detector.detect\<close> belongs to the vision runtime. Its outcome is an input of the model:
  it throws, or it returns a result whose \<open>detections\<close> may be missing
  (\<open>result?.detections ?? []\<close>) and whose entries may be null. The handler awaits the call;
  events handled while it is pending are not modelled. Inside the \<open>try\<close> block three
  statements can throw: the detector call, \<open>ctx.putImageData\<close> when it is given null, and
  \<open>calculateRedactionBoxes\<close> on a null entry. The drawing calls of \<open>drawRedactionBoxes\<close>
  and the assignments do not throw.
\<close>

datatype detect_outcome = DetectThrows | DetectReturns "detection option list option"

datatype try_result = Completed state | Thrown state

function string_of_nat :: "nat \<Rightarrow> string" where
  "string_of_nat n =
     (if n < 10 then [''0123456789'' ! n]
      else string_of_nat (n div 10) @ [''0123456789'' ! (n mod 10)])"
  by pat_completeness auto
termination
  by (relation "measure (\<lambda>n. n)") auto

definition plural :: "nat \<Rightarrow> string" where
  "plural n = (if n = 1 then [] else ''s'')"

definition detect_try :: "detect_outcome \<Rightarrow> state \<Rightarrow> try_result" where
  \<comment> \<open>the body of the \<open>try\<close> block, with the state it has reached when it ends or throws\<close>
  "detect_try outcome s0 =
     (let s1 = setStatus ''Detecting faces...'' False s0 in
      case outcome of
        DetectThrows \<Rightarrow> Thrown s1
      | DetectReturns result \<Rightarrow>
          (let s2 = s1\<lparr>detections := (case result of Some ds \<Rightarrow> ds | None \<Rightarrow> [])\<rparr> in
           if length (detections s2) = 0 then Completed (setStatus ''No faces detected'' False s2)
           else
             (case originalImageData s2 of
                None \<Rightarrow> Thrown s2
              | Some im \<Rightarrow>
                  (let s3 = s2\<lparr>ctx := putImageData im (ctx s2)\<rparr> in
                   case calculateRedactionBoxes_entries (canvas_width s3) (canvas_height s3)
                          (detections s3) of
                     BoxesThrown boxes \<Rightarrow> Thrown (s3\<lparr>redactionBoxes := boxes\<rparr>)
                   | BoxesDone boxes \<Rightarrow>
                       (let s4 = s3\<lparr>redactionBoxes := boxes\<rparr> in
                        if length (redactionBoxes s4) = 0
                        then Completed (setStatus ''Error creating redaction boxes'' True s4)
                        else
                          (let s5 = drawRedactionBoxes s4;
                               s6 = s5\<lparr>downloadBtn_disabled := False\<rparr>
                           in Completed
                                (setStatus
                                   (''Redacted '' @ string_of_nat (length (detections s6))
                                      @ '' face'' @ plural (length (detections s6)))
                                   False s6)))))))"

definition detectBtn_click :: "detect_outcome \<Rightarrow> state \<Rightarrow> state" where
  "detectBtn_click outcome s =
     (if \<not> detector s then setStatus ''Detector not initialized.'' True s
      else if canvas_width s = 0 \<or> canvas_height s = 0 then s
      else
        (case detect_try outcome s of
           Completed s' \<Rightarrow> s'
         | Thrown s' \<Rightarrow> setStatus ''Error processing image'' True s'))"

section \<open>Drag controller: the move handlers\<close>

fun set_x :: "real \<Rightarrow> redactionBox \<Rightarrow> redactionBox" where
  "set_x v (Rotated x y w h a) = Rotated v y w h a"
| "set_x v (Standard x y w h) = Standard v y w h"

fun set_y :: "real \<Rightarrow> redactionBox \<Rightarrow> redactionBox" where
  "set_y v (Rotated x y w h a) = Rotated x v w h a"
| "set_y v (Standard x y w h) = Standard x v w h"

fun clampBox :: "nat \<Rightarrow> nat \<Rightarrow> redactionBox \<Rightarrow> redactionBox" where
  \<comment> \<open>"Keep box within canvas bounds"\<close>
  "clampBox canvas_w canvas_h (Rotated x y w h a) =
     (let halfDiag = sqrt (w * w + h * h) / 2;
          x' = max halfDiag (min (real canvas_w - halfDiag) x);
          y' = max halfDiag (min (real canvas_h - halfDiag) y)
      in Rotated x' y' w h a)"
| "clampBox canvas_w canvas_h (Standard x y w h) =
     (let x' = max 0 (min (real canvas_w - w) x);
          y' = max 0 (min (real canvas_h - h) y)
      in Standard x' y' w h)"

text \<open>
  Both move handlers run the same statements on the held box: move its anchor to the
  pointer minus the drag offset, clamp, repaint. \<open>pos\<close> is the pointer position in canvas
  coordinates, the value of \<open>getPointerPos(e)\<close>. The held box is the element \<open>i\<close> of
  \<open>redactionBoxes\<close>, so the assignments to its fields update that element.
\<close>

definition moveDragged :: "real \<times> real \<Rightarrow> nat \<Rightarrow> state \<Rightarrow> state" where
  "moveDragged pos i s =
     (let box0 = redactionBoxes s ! i;
          box1 = set_x (fst pos - fst (dragOffset s)) box0;
          box2 = set_y (snd pos - snd (dragOffset s)) box1;
          box3 = clampBox (canvas_width s) (canvas_height s) box2
      in redrawCanvas (s\<lparr>redactionBoxes := (redactionBoxes s)[i := box3]\<rparr>))"

definition mousemove :: "real \<times> real \<Rightarrow> state \<Rightarrow> state" where
  "mousemove pos s =
     (if length (redactionBoxes s) = 0 then s
      else
        (case draggedBox s of
           Some i \<Rightarrow> moveDragged pos i s
         | None \<Rightarrow>
             s\<lparr>cursor :=
                 (if findBoxAt (fst pos) (snd pos) (redactionBoxes s) \<noteq> None
                  then ''grab'' else ''default'')\<rparr>))"

definition touchmove :: "real \<times> real \<Rightarrow> nat \<Rightarrow> state \<Rightarrow> state" where
  \<comment> \<open>\<open>touches\<close> is \<open>e.touches.length\<close>\<close>
  "touchmove pos touches s =
     (case draggedBox s of
        Some i \<Rightarrow> if touches = 1 then moveDragged pos i s else s
      | None \<Rightarrow> s)"

definition halfDiag :: "redactionBox \<Rightarrow> real" where
  \<comment> \<open>the margin of the rotated clamp, as the handlers compute it\<close>
  "halfDiag box = sqrt (box_width box * box_width box + box_height box * box_height box) / 2"

section \<open>Example inputs\<close>

text \<open>
  The inputs of the scenarios: eye keypoints in normalised coordinates, a face bounding
  box, a detection with a single keypoint and one with nothing; the application after an
  image has been loaded into a 1000 by 1000 canvas and after a first detection pass on it;
  a box set under a drag.
\<close>

definition kpRight :: keypoint where
  "kpRight = \<lparr>kp_x = Some 0.4, kp_y = 0.4\<rparr>"

definition kpLeft :: keypoint where
  "kpLeft = \<lparr>kp_x = Some 0.6, kp_y = 0.4\<rparr>"

definition bbFace :: bbox where
  "bbFace = \<lparr>originX = 100, originY = 100, bb_width = 200, bb_height = 200\<rparr>"

definition detEyes :: detection where
  "detEyes = \<lparr>boundingBox = Some bbFace, keypoints = Some [Some kpRight, Some kpLeft]\<rparr>"

definition detFace :: detection where
  "detFace = \<lparr>boundingBox = Some bbFace, keypoints = None\<rparr>"

definition detOneKeypoint :: detection where
  "detOneKeypoint = \<lparr>boundingBox = None, keypoints = Some [Some kpRight]\<rparr>"

definition detNothing :: detection where
  "detNothing = \<lparr>boundingBox = None, keypoints = None\<rparr>"

definition boxesOverlapping :: "redactionBox list" where
  "boxesOverlapping = [Standard 0 0 10 10, Standard 5 5 10 10, Rotated 100 100 4 2 0]"

definition stateLoaded :: state where
  "stateLoaded =
     \<lparr>detector = True, canvas_width = 1000, canvas_height = 1000,
      ctx = \<lparr>bitmap = Some 0, overlay = []\<rparr>, originalImageData = Some 0,
      detections = [], redactionBoxes = [], draggedBox = None, dragOffset = (0, 0),
      status = (''Image loaded'', False), downloadBtn_disabled = True,
      cursor = [], debugMode = False\<rparr>"

definition stateRedacted :: state where
  "stateRedacted = detectBtn_click (DetectReturns (Some [Some detFace])) stateLoaded"

definition stateDragging :: "nat \<Rightarrow> state" where
  \<comment> \<open>three boxes on the loaded canvas, the box of the given index held\<close>
  "stateDragging i =
     stateLoaded
       \<lparr>redactionBoxes := [Rotated 500 400 300 400 0, Standard 10 10 1200 50,
                           Rotated 500 500 900 1200 0],
        draggedBox := Some i\<rparr>"

section \<open>Properties of the Math functions\<close>

text \<open>
  \<open>Math_atan2\<close> and \<open>Math_hypot\<close> are the polar coordinates of a point: the angle lies in
  \<open>(-\<pi>, \<pi>]\<close>, and the point is recovered from its distance and angle.
\<close>

lemma Math_hypot_nonneg: "0 \<le> Math_hypot a b"
  by (simp add: Math_hypot_def)

lemma hypot_scaled:
  fixes x y :: real
  assumes "x \<noteq> 0"
  shows "sqrt (1 + (y / x)\<^sup>2) = sqrt (x * x + y * y) / \<bar>x\<bar>"
proof -
  have "1 + (y / x)\<^sup>2 = (x * x + y * y) / x\<^sup>2"
    using assms by (simp add: power2_eq_square field_simps)
  then show ?thesis
    by (simp add: real_sqrt_divide)
qed

lemma cos_arctan_ratio:
  fixes x y :: real
  assumes "x \<noteq> 0"
  shows "sqrt (x * x + y * y) * cos (arctan (y / x)) = \<bar>x\<bar>"
proof -
  have pos: "0 < sqrt (x * x + y * y)"
    using assms by (simp add: sum_squares_gt_zero_iff[unfolded power2_eq_square] add_pos_nonneg)
  show ?thesis
    using assms pos by (simp add: cos_arctan hypot_scaled)
qed

lemma sin_arctan_ratio:
  fixes x y :: real
  assumes "x \<noteq> 0"
  shows "sqrt (x * x + y * y) * sin (arctan (y / x)) = y * \<bar>x\<bar> / x"
proof -
  have pos: "0 < sqrt (x * x + y * y)"
    using assms by (simp add: sum_squares_gt_zero_iff[unfolded power2_eq_square] add_pos_nonneg)
  show ?thesis
    using assms pos by (simp add: sin_arctan hypot_scaled)
qed

lemma Math_atan2_polar:
  "Math_hypot x y * cos (Math_atan2 y x) = x \<and> Math_hypot x y * sin (Math_atan2 y x) = y"
proof (cases "x = 0")
  case True
  then show ?thesis
    by (simp add: Math_hypot_def Math_atan2_def)
next
  case False
  then show ?thesis
    using cos_arctan_ratio [of x y] sin_arctan_ratio [of x y]
    by (simp add: Math_hypot_def Math_atan2_def)
qed

lemma Math_atan2_range: "- pi < Math_atan2 y x \<and> Math_atan2 y x \<le> pi"
proof -
  have lo: "- (pi / 2) < arctan (y / x)" by (rule arctan_lbound)
  have hi: "arctan (y / x) < pi / 2" by (rule arctan_ubound)
  consider "0 < x" | "x < 0" "0 \<le> y" | "x < 0" "y < 0" | "x = 0" "0 < y" | "x = 0" "y < 0"
    | "x = 0" "y = 0"
    by linarith
  then show ?thesis
  proof cases
    case 1
    then have "Math_atan2 y x = arctan (y / x)" by (simp add: Math_atan2_def)
    with lo hi pi_gt_zero show ?thesis by linarith
  next
    case 2
    then have "y / x \<le> 0" by (simp add: divide_le_0_iff)
    then have "arctan (y / x) \<le> 0" by (simp only: arctan_le_zero_iff)
    moreover from 2 have "Math_atan2 y x = arctan (y / x) + pi" by (simp add: Math_atan2_def)
    ultimately show ?thesis using lo pi_gt_zero by linarith
  next
    case 3
    then have "0 < y / x" by (simp add: zero_less_divide_iff)
    then have "0 < arctan (y / x)" by (simp only: zero_less_arctan_iff)
    moreover from 3 have "Math_atan2 y x = arctan (y / x) - pi" by (simp add: Math_atan2_def)
    ultimately show ?thesis using hi pi_gt_zero by linarith
  next
    case 4
    then have "Math_atan2 y x = pi / 2" by (simp add: Math_atan2_def)
    with pi_gt_zero show ?thesis by linarith
  next
    case 5
    then have "Math_atan2 y x = - (pi / 2)" by (simp add: Math_atan2_def)
    with pi_gt_zero show ?thesis by linarith
  next
    case 6
    then have "Math_atan2 y x = 0" by (simp add: Math_atan2_def)
    with pi_gt_zero show ?thesis by linarith
  qed
qed

section \<open>Properties of the box calculator\<close>

lemma pushBoxes_concat:
  "pushBoxes cw ch dets boxes = boxes @ concat (map (boxesFor cw ch) dets)"
  by (induction dets arbitrary: boxes) simp_all

lemma calculateRedactionBoxes_concat:
  "calculateRedactionBoxes cw ch dets = concat (map (boxesFor cw ch) dets)"
  by (simp add: calculateRedactionBoxes_def pushBoxes_concat)

lemma calculateRedactionBoxes_split:
  "calculateRedactionBoxes cw ch (before @ det # rest) =
     calculateRedactionBoxes cw ch before @ boxesFor cw ch det @ calculateRedactionBoxes cw ch rest"
  by (simp add: calculateRedactionBoxes_concat)

lemma sqrt_40000: "sqrt 40000 = 200"
  using real_sqrt_abs [of 200] by simp

lemma sqrt_25: "sqrt 25 = 5"
  using real_sqrt_abs [of 5] by simp

lemma sqrt_250000: "sqrt 250000 = 500"
  using real_sqrt_abs [of 500] by simp

lemma sqrt_2250000: "sqrt 2250000 = 1500"
  using real_sqrt_abs [of 1500] by simp

lemma eyePair_examples:
  "eyePair detEyes = Some ((0.4, 0.4), (0.6, 0.4))"
  "eyePair detFace = None"
  "eyePair detOneKeypoint = None"
  "eyePair detNothing = None"
  by (simp_all add: eyePair_def detEyes_def detFace_def detOneKeypoint_def detNothing_def
      kpRight_def kpLeft_def)

lemma boundingBox_examples:
  "boundingBox detEyes = Some bbFace"
  "boundingBox detFace = Some bbFace"
  "boundingBox detOneKeypoint = None"
  "boundingBox detNothing = None"
  by (simp_all add: detEyes_def detFace_def detOneKeypoint_def detNothing_def)

lemma boxesFor_detEyes: "boxesFor 1000 1000 detEyes = [Rotated 500 400 500 100 0]"
  by (simp add: boxesFor_def eyePair_examples rotatedBox_def toPixels_def Let_def
      Math_hypot_def Math_atan2_def sqrt_40000)

lemma boxesFor_detFace: "boxesFor cw ch detFace = [Standard 120 140 160 40]"
  by (simp add: boxesFor_def eyePair_examples boundingBox_examples fallbackBox_def bbFace_def)

text \<open>
  C1. A detection whose keypoint array has at least two entries, the first two present and
  each with an \<open>x\<close>, contributes exactly one box, whatever its bounding box: a rotated box
  computed from the two eye points after each coordinate \<open>v\<close> below 2 has been multiplied by
  the canvas extent of its axis. With \<open>(dx, dy)\<close> the vector from the right eye to the left
  eye in pixels, its angle is \<open>atan2(dy, dx)\<close>, its centre the midpoint of the eyes, its width
  \<open>2.5 * hypot(dx, dy)\<close> and its height \<open>0.5 * hypot(dx, dy)\<close>.
\<close>

theorem keypoint_detection_rotated_box:
  assumes "keypoints det = Some kps" and "2 \<le> length kps"
    and "kps ! 0 = Some rightEye" and "kps ! 1 = Some leftEye"
    and "kp_x rightEye = Some rx" and "kp_x leftEye = Some lx"
  shows "let norm = (\<lambda>v E. if v < 2 then v * real E else v);
             rightEyeX = norm rx cw; rightEyeY = norm (kp_y rightEye) ch;
             leftEyeX = norm lx cw; leftEyeY = norm (kp_y leftEye) ch;
             dx = leftEyeX - rightEyeX; dy = leftEyeY - rightEyeY
         in calculateRedactionBoxes cw ch (before @ det # rest) =
              calculateRedactionBoxes cw ch before
                @ [Rotated ((rightEyeX + leftEyeX) / 2) ((rightEyeY + leftEyeY) / 2)
                     (2.5 * Math_hypot dx dy) (0.5 * Math_hypot dx dy) (Math_atan2 dy dx)]
                @ calculateRedactionBoxes cw ch rest"
proof -
  have "eyePair det = Some ((rx, kp_y rightEye), (lx, kp_y leftEye))"
    using assms by (simp add: eyePair_def)
  then show ?thesis
    by (simp add: calculateRedactionBoxes_split boxesFor_def rotatedBox_def toPixels_def Let_def)
qed

text \<open>
  The scenario of the eyes at \<open>(0.4, 0.4)\<close> and \<open>(0.6, 0.4)\<close> on a 1000 by 1000 canvas:
  the detection also has a bounding box, and only the rotated box is produced.
\<close>

theorem keypoint_detection_rotated_box_witness:
  "calculateRedactionBoxes 1000 1000 [detEyes] = [Rotated 500 400 500 100 0]"
  using keypoint_detection_rotated_box
          [of detEyes "[Some kpRight, Some kpLeft]" kpRight kpLeft "0.4" "0.6" 1000 1000 "[]" "[]"]
  by (simp add: detEyes_def kpRight_def kpLeft_def calculateRedactionBoxes_def Math_hypot_def
      Math_atan2_def sqrt_40000)

text \<open>
  C2. A detection without a usable keypoint pair and with a bounding box contributes
  exactly one box, a standard one: \<open>x = originX + 0.1 * width\<close>, \<open>width = 0.8 * width\<close>,
  \<open>height = 0.2 * height\<close> and \<open>y = (originY + 0.3 * height) - (0.2 * height) / 2\<close>, so
  the strip is centred vertically on \<open>originY + 0.3 * height\<close>.
\<close>

theorem bounding_box_detection_standard_box:
  assumes "eyePair det = None" and "boundingBox det = Some bb"
  shows "calculateRedactionBoxes cw ch (before @ det # rest) =
           calculateRedactionBoxes cw ch before
             @ [Standard (originX bb + 0.1 * bb_width bb)
                  ((originY bb + 0.3 * bb_height bb) - (0.2 * bb_height bb) / 2)
                  (0.8 * bb_width bb) (0.2 * bb_height bb)]
             @ calculateRedactionBoxes cw ch rest"
  using assms
  by (simp add: calculateRedactionBoxes_split boxesFor_def fallbackBox_def Let_def)

theorem bounding_box_detection_standard_box_witness:
  "calculateRedactionBoxes 640 480 [detOneKeypoint\<lparr>boundingBox := Some bbFace\<rparr>] =
     [Standard 120 140 160 40]"
  using bounding_box_detection_standard_box
          [of "detOneKeypoint\<lparr>boundingBox := Some bbFace\<rparr>" bbFace 640 480 "[]" "[]"]
  by (simp add: detOneKeypoint_def bbFace_def eyePair_def calculateRedactionBoxes_def)

text \<open>
  C6, as the program has it. The calculator never returns more boxes than there are
  detections. It drops exactly the detections that have neither a usable keypoint pair (two
  or more keypoints, the first two present and each with an \<open>x\<close>) nor a bounding box; every
  other detection gives exactly one box, and the boxes keep the order of the detections.
\<close>

theorem one_box_per_usable_detection:
  "length (calculateRedactionBoxes cw ch dets) \<le> length dets \<and>
   length (calculateRedactionBoxes cw ch dets) =
     length (filter (\<lambda>det. eyePair det \<noteq> None \<or> boundingBox det \<noteq> None) dets) \<and>
   calculateRedactionBoxes cw ch dets = concat (map (boxesFor cw ch) dets) \<and>
   (\<forall>det. length (boxesFor cw ch det) =
            (if eyePair det = None \<and> boundingBox det = None then 0 else 1))"
proof -
  have one: "length (boxesFor cw ch det) =
            (if eyePair det = None \<and> boundingBox det = None then 0 else 1)" for det
    by (simp add: boxesFor_def split: option.splits)
  have len: "length (concat (map (boxesFor cw ch) ds)) =
     length (filter (\<lambda>det. eyePair det \<noteq> None \<or> boundingBox det \<noteq> None) ds)" for ds
    by (induction ds) (simp_all add: one)
  have "length (filter (\<lambda>det. eyePair det \<noteq> None \<or> boundingBox det \<noteq> None) dets) \<le> length dets"
    by (rule length_filter_le)
  with len one show ?thesis
    by (simp add: calculateRedactionBoxes_concat)
qed

theorem one_box_per_usable_detection_witness:
  "length (calculateRedactionBoxes 1000 1000 [detEyes, detOneKeypoint, detFace, detNothing]) = 2 \<and>
   length (boxesFor 1000 1000 detEyes) = 1 \<and> length (boxesFor 1000 1000 detOneKeypoint) = 0 \<and>
   length (boxesFor 1000 1000 detFace) = 1 \<and> length (boxesFor 1000 1000 detNothing) = 0"
  using one_box_per_usable_detection [of 1000 1000 "[detEyes, detOneKeypoint, detFace, detNothing]"]
  by (simp add: eyePair_examples boundingBox_examples)

text \<open>
  C6 as the specification words it fails: a detection that has a keypoint, but only one, and no
  bounding box is dropped.
\<close>

theorem keypoints_without_pair_dropped:
  "keypoints detOneKeypoint = Some [Some kpRight] \<and> boundingBox detOneKeypoint = None \<and>
   calculateRedactionBoxes 1000 1000 [detOneKeypoint] = []"
  by (simp add: detOneKeypoint_def calculateRedactionBoxes_def boxesFor_def eyePair_def)

text \<open>
  C7, as the program has it. The single detection with no keypoints and the bounding box
  \<open>{originX: 100, originY: 100, width: 200, height: 200}\<close> gives exactly one standard box,
  with \<open>x = 120\<close>, \<open>y = 140\<close>, \<open>width = 160\<close> and \<open>height = 40\<close>, on every canvas.
\<close>

theorem bounding_box_scenario:
  "calculateRedactionBoxes cw ch [detFace] = [Standard 120 140 160 40]"
  by (simp add: calculateRedactionBoxes_def boxesFor_detFace)

text \<open>C7 as the specification words it, with \<open>y = 190\<close>, fails.\<close>

theorem bounding_box_scenario_not_190:
  "calculateRedactionBoxes 1000 1000 [detFace] \<noteq> [Standard 120 190 160 40]"
  by (simp add: calculateRedactionBoxes_def boxesFor_detFace)

section \<open>Properties of the hit tester\<close>

lemma rotation_norm:
  fixes dx dy c s :: real
  shows "(dx * c - dy * s)\<^sup>2 + (dx * s + dy * c)\<^sup>2 = (dx\<^sup>2 + dy\<^sup>2) * (s\<^sup>2 + c\<^sup>2)"
  by algebra

lemma rotated_local_norm:
  fixes dx dy a :: real
  shows "(dx * cos a - dy * sin a)\<^sup>2 + (dx * sin a + dy * cos a)\<^sup>2 = dx\<^sup>2 + dy\<^sup>2"
  by (simp add: rotation_norm)

lemma abs_le_sqrt_sum_squares:
  fixes u v :: real
  shows "\<bar>u\<bar> \<le> sqrt (u\<^sup>2 + v\<^sup>2)" and "\<bar>v\<bar> \<le> sqrt (u\<^sup>2 + v\<^sup>2)"
proof -
  have "sqrt (u\<^sup>2) \<le> sqrt (u\<^sup>2 + v\<^sup>2)" by (rule real_sqrt_le_mono) simp
  then show "\<bar>u\<bar> \<le> sqrt (u\<^sup>2 + v\<^sup>2)" by simp
  have "sqrt (v\<^sup>2) \<le> sqrt (u\<^sup>2 + v\<^sup>2)" by (rule real_sqrt_le_mono) simp
  then show "\<bar>v\<bar> \<le> sqrt (u\<^sup>2 + v\<^sup>2)" by simp
qed

lemma containsPoint_Rotated_dist:
  assumes "containsPoint px py (Rotated cx cy w h a)"
  shows "sqrt ((px - cx)\<^sup>2 + (py - cy)\<^sup>2) \<le> halfDiag (Rotated cx cy w h a)"
proof -
  define lx where "lx = (px - cx) * cos (- a) - (py - cy) * sin (- a)"
  define ly where "ly = (px - cx) * sin (- a) + (py - cy) * cos (- a)"
  from assms have bx: "\<bar>lx\<bar> \<le> w / 2" and by': "\<bar>ly\<bar> \<le> h / 2"
    by (simp_all add: lx_def ly_def Let_def)
  have "lx\<^sup>2 \<le> (w / 2)\<^sup>2"
    using bx by (metis abs_le_square_iff abs_ge_zero order_trans abs_of_nonneg)
  moreover have "ly\<^sup>2 \<le> (h / 2)\<^sup>2"
    using by' by (metis abs_le_square_iff abs_ge_zero order_trans abs_of_nonneg)
  moreover have "lx\<^sup>2 + ly\<^sup>2 = (px - cx)\<^sup>2 + (py - cy)\<^sup>2"
    unfolding lx_def ly_def by (rule rotated_local_norm)
  ultimately have "(px - cx)\<^sup>2 + (py - cy)\<^sup>2 \<le> (w * w + h * h) / 4"
    by (simp add: power2_eq_square field_simps)
  then have "sqrt ((px - cx)\<^sup>2 + (py - cy)\<^sup>2) \<le> sqrt ((w * w + h * h) / 4)"
    by (rule real_sqrt_le_mono)
  also have "sqrt ((w * w + h * h) / 4) = sqrt (w * w + h * h) / 2"
    by (simp add: real_sqrt_divide)
  finally show ?thesis by (simp add: halfDiag_def)
qed

lemma containsPoint_Rotated_coords:
  assumes "containsPoint px py (Rotated cx cy w h a)"
  shows "\<bar>px - cx\<bar> \<le> halfDiag (Rotated cx cy w h a)"
    and "\<bar>py - cy\<bar> \<le> halfDiag (Rotated cx cy w h a)"
proof -
  have d: "sqrt ((px - cx)\<^sup>2 + (py - cy)\<^sup>2) \<le> halfDiag (Rotated cx cy w h a)"
    using assms by (rule containsPoint_Rotated_dist)
  have "\<bar>px - cx\<bar> \<le> sqrt ((px - cx)\<^sup>2 + (py - cy)\<^sup>2)"
    by (rule abs_le_sqrt_sum_squares)
  with d show "\<bar>px - cx\<bar> \<le> halfDiag (Rotated cx cy w h a)" by linarith
  have "\<bar>py - cy\<bar> \<le> sqrt ((px - cx)\<^sup>2 + (py - cy)\<^sup>2)"
    by (rule abs_le_sqrt_sum_squares)
  with d show "\<bar>py - cy\<bar> \<le> halfDiag (Rotated cx cy w h a)" by linarith
qed

text \<open>
  C3. A rotated box of non-negative width and height contains its own centre, and contains
  no point farther from the centre than half its diagonal, at every angle.
\<close>

theorem rotated_hit_test_centre_and_far:
  assumes "0 \<le> w" and "0 \<le> h"
  shows "containsPoint cx cy (Rotated cx cy w h a) \<and>
         (\<forall>px py. sqrt ((px - cx)\<^sup>2 + (py - cy)\<^sup>2) > sqrt (w\<^sup>2 + h\<^sup>2) / 2
                    \<longrightarrow> \<not> containsPoint px py (Rotated cx cy w h a))"
proof
  show "containsPoint cx cy (Rotated cx cy w h a)"
    using assms by simp
  show "\<forall>px py. sqrt ((px - cx)\<^sup>2 + (py - cy)\<^sup>2) > sqrt (w\<^sup>2 + h\<^sup>2) / 2
                    \<longrightarrow> \<not> containsPoint px py (Rotated cx cy w h a)"
  proof (intro allI impI notI)
    fix px py
    assume far: "sqrt ((px - cx)\<^sup>2 + (py - cy)\<^sup>2) > sqrt (w\<^sup>2 + h\<^sup>2) / 2"
      and hit: "containsPoint px py (Rotated cx cy w h a)"
    from hit have "sqrt ((px - cx)\<^sup>2 + (py - cy)\<^sup>2) \<le> halfDiag (Rotated cx cy w h a)"
      by (rule containsPoint_Rotated_dist)
    with far show False
      by (simp add: halfDiag_def power2_eq_square)
  qed
qed

text \<open>A 3 by 4 box, half-diagonal 2.5, centred at \<open>(10, 10)\<close>, and a point 10 away.\<close>

theorem rotated_hit_test_centre_and_far_witness:
  "containsPoint 10 10 (Rotated 10 10 3 4 0) \<and> \<not> containsPoint 20 10 (Rotated 10 10 3 4 0)"
proof -
  have "containsPoint 10 10 (Rotated 10 10 3 4 0) \<and>
         (\<forall>px py. sqrt ((px - 10)\<^sup>2 + (py - 10)\<^sup>2) > sqrt (3\<^sup>2 + 4\<^sup>2) / 2
                    \<longrightarrow> \<not> containsPoint px py (Rotated 10 10 3 4 0))"
    by (rule rotated_hit_test_centre_and_far) simp_all
  moreover have "sqrt ((20 - 10)\<^sup>2 + (10 - 10)\<^sup>2) > sqrt (3\<^sup>2 + 4\<^sup>2) / (2::real)"
    by (simp add: sqrt_25)
  ultimately show ?thesis by blast
qed

lemma findBoxAt_from_None:
  "findBoxAt_from n x y boxes = None \<longleftrightarrow> (\<forall>i<n. \<not> containsPoint x y (boxes ! i))"
  by (induction n) (auto simp: less_Suc_eq)

lemma findBoxAt_from_Some:
  "findBoxAt_from n x y boxes = Some i \<longleftrightarrow>
     i < n \<and> containsPoint x y (boxes ! i) \<and> (\<forall>j. i < j \<and> j < n \<longrightarrow> \<not> containsPoint x y (boxes ! j))"
proof (induction n)
  case 0
  then show ?case by simp
next
  case (Suc n)
  show ?case
  proof (cases "containsPoint x y (boxes ! n)")
    case True
    then show ?thesis
      by (auto simp: less_Suc_eq)
  next
    case False
    then show ?thesis
      using Suc by (auto simp: less_Suc_eq)
  qed
qed

text \<open>
  C4. \<open>findBoxAt\<close> returns the box of the highest index that contains the point, and null
  exactly when no box of the list contains it.
\<close>

theorem findBoxAt_topmost:
  "(findBoxAt x y boxes = None \<longleftrightarrow> (\<forall>i<length boxes. \<not> containsPoint x y (boxes ! i))) \<and>
   (\<forall>i. findBoxAt x y boxes = Some i \<longleftrightarrow>
      i < length boxes \<and> containsPoint x y (boxes ! i) \<and>
      (\<forall>j. i < j \<and> j < length boxes \<longrightarrow> \<not> containsPoint x y (boxes ! j))) \<and>
   (findBoxAt_box x y boxes = None \<longleftrightarrow> (\<forall>b \<in> set boxes. \<not> containsPoint x y b)) \<and>
   (\<forall>b. findBoxAt_box x y boxes = Some b \<longleftrightarrow>
      (\<exists>i<length boxes. b = boxes ! i \<and> containsPoint x y (boxes ! i) \<and>
         (\<forall>j. i < j \<and> j < length boxes \<longrightarrow> \<not> containsPoint x y (boxes ! j))))"
proof (intro conjI allI)
  show none: "findBoxAt x y boxes = None \<longleftrightarrow> (\<forall>i<length boxes. \<not> containsPoint x y (boxes ! i))"
    by (simp add: findBoxAt_def findBoxAt_from_None)
  show "findBoxAt x y boxes = Some i \<longleftrightarrow>
      i < length boxes \<and> containsPoint x y (boxes ! i) \<and>
      (\<forall>j. i < j \<and> j < length boxes \<longrightarrow> \<not> containsPoint x y (boxes ! j))" for i
    by (simp add: findBoxAt_def findBoxAt_from_Some)
  have "(\<forall>b \<in> set boxes. \<not> containsPoint x y b) \<longleftrightarrow>
        (\<forall>i<length boxes. \<not> containsPoint x y (boxes ! i))"
    by (simp add: all_set_conv_all_nth)
  with none show "findBoxAt_box x y boxes = None \<longleftrightarrow> (\<forall>b \<in> set boxes. \<not> containsPoint x y b)"
    by (simp add: findBoxAt_box_def)
  show "findBoxAt_box x y boxes = Some b \<longleftrightarrow>
      (\<exists>i<length boxes. b = boxes ! i \<and> containsPoint x y (boxes ! i) \<and>
         (\<forall>j. i < j \<and> j < length boxes \<longrightarrow> \<not> containsPoint x y (boxes ! j)))" for b
    by (auto simp: findBoxAt_def findBoxAt_box_def findBoxAt_from_Some)
qed

text \<open>
  Of two overlapping standard boxes the later one is found; a rotated box appended after
  them does not contain the point; a point outside all three finds nothing.
\<close>

theorem findBoxAt_topmost_witness:
  "findBoxAt 7 7 boxesOverlapping = Some 1 \<and>
   findBoxAt_box 7 7 boxesOverlapping = Some (Standard 5 5 10 10) \<and>
   findBoxAt_box 50 50 boxesOverlapping = None"
proof -
  have above: "\<forall>j. 1 < j \<and> j < length boxesOverlapping \<longrightarrow>
                 \<not> containsPoint 7 7 (boxesOverlapping ! j)"
  proof (intro allI impI)
    fix j :: nat
    assume "1 < j \<and> j < length boxesOverlapping"
    then have "j = 2" by (simp add: boxesOverlapping_def)
    then show "\<not> containsPoint 7 7 (boxesOverlapping ! j)"
      by (simp add: boxesOverlapping_def)
  qed
  have hit: "containsPoint 7 7 (boxesOverlapping ! 1)"
    by (simp add: boxesOverlapping_def)
  have len: "1 < length boxesOverlapping"
    by (simp add: boxesOverlapping_def)
  have miss: "\<forall>b\<in>set boxesOverlapping. \<not> containsPoint 50 50 b"
    by (simp add: boxesOverlapping_def)
  note at_7 = findBoxAt_topmost [of 7 7 boxesOverlapping]
  note at_50 = findBoxAt_topmost [of 50 50 boxesOverlapping]
  have "findBoxAt 7 7 boxesOverlapping = Some 1"
    using at_7 above hit len by blast
  moreover have "findBoxAt_box 7 7 boxesOverlapping = Some (boxesOverlapping ! 1)"
    using at_7 above hit len by blast
  moreover have "findBoxAt_box 50 50 boxesOverlapping = None"
    using at_50 miss by blast
  ultimately show ?thesis by (simp add: boxesOverlapping_def)
qed

section \<open>Properties of the drag controller\<close>

lemma drawRedactionBoxes_fields:
  "redactionBoxes (drawRedactionBoxes s) = redactionBoxes s"
  "canvas_width (drawRedactionBoxes s) = canvas_width s"
  "canvas_height (drawRedactionBoxes s) = canvas_height s"
  by (simp_all add: drawRedactionBoxes_def)

lemma redrawCanvas_fields:
  "redactionBoxes (redrawCanvas s) = redactionBoxes s"
  "canvas_width (redrawCanvas s) = canvas_width s"
  "canvas_height (redrawCanvas s) = canvas_height s"
  by (simp_all add: redrawCanvas_def drawRedactionBoxes_fields split: option.splits)

lemma moveDragged_fields:
  "redactionBoxes (moveDragged pos i s) =
     (redactionBoxes s)
       [i := clampBox (canvas_width s) (canvas_height s)
               (set_y (snd pos - snd (dragOffset s))
                  (set_x (fst pos - fst (dragOffset s)) (redactionBoxes s ! i)))]"
  "canvas_width (moveDragged pos i s) = canvas_width s"
  "canvas_height (moveDragged pos i s) = canvas_height s"
  by (simp_all add: moveDragged_def Let_def redrawCanvas_fields)

lemma gesture_move_dragged:
  assumes "draggedBox s = Some i" and "i < length (redactionBoxes s)"
    and "s' = mousemove pos s \<or> s' = touchmove pos 1 s"
  shows "s' = moveDragged pos i s"
  using assms by (auto simp: mousemove_def touchmove_def)

lemma stateDragging_fields:
  "draggedBox (stateDragging i) = Some i"
  "dragOffset (stateDragging i) = (0, 0)"
  "canvas_width (stateDragging i) = 1000"
  "canvas_height (stateDragging i) = 1000"
  "redactionBoxes (stateDragging i) =
     [Rotated 500 400 300 400 0, Standard 10 10 1200 50, Rotated 500 500 900 1200 0]"
  by (simp_all add: stateDragging_def stateLoaded_def)

text \<open>
  C5. A move of the mouse, or of a single touch, while a rotated box is held leaves that
  box with its size and angle and with its centre in
  \<open>[halfDiag, canvasWidth - halfDiag] \<times> [halfDiag, canvasHeight - halfDiag]\<close>, provided
  \<open>2 * halfDiag\<close> exceeds neither canvas extent; every point that the rectangle of that
  centre and size contains, at any angle, then lies in
  \<open>[0, canvasWidth] \<times> [0, canvasHeight]\<close>. The rectangle is the one the hit test accepts,
  which is the one the renderer fills. Nothing is assumed of the position before the
  move, so every gesture-move update establishes the bound anew.
\<close>

theorem rotated_clamp_keeps_box_on_canvas:
  assumes "draggedBox s = Some i" and "i < length (redactionBoxes s)"
    and "redactionBoxes s ! i = Rotated x y w h a"
    and "2 * (sqrt (w\<^sup>2 + h\<^sup>2) / 2) \<le> real (canvas_width s)"
    and "2 * (sqrt (w\<^sup>2 + h\<^sup>2) / 2) \<le> real (canvas_height s)"
    and "s' = mousemove pos s \<or> s' = touchmove pos 1 s"
  shows "\<exists>x' y'. redactionBoxes s' ! i = Rotated x' y' w h a \<and>
           canvas_width s' = canvas_width s \<and> canvas_height s' = canvas_height s \<and>
           sqrt (w\<^sup>2 + h\<^sup>2) / 2 \<le> x' \<and> x' \<le> real (canvas_width s) - sqrt (w\<^sup>2 + h\<^sup>2) / 2 \<and>
           sqrt (w\<^sup>2 + h\<^sup>2) / 2 \<le> y' \<and> y' \<le> real (canvas_height s) - sqrt (w\<^sup>2 + h\<^sup>2) / 2 \<and>
           (\<forall>\<theta> px py. containsPoint px py (Rotated x' y' w h \<theta>) \<longrightarrow>
              0 \<le> px \<and> px \<le> real (canvas_width s') \<and> 0 \<le> py \<and> py \<le> real (canvas_height s'))"
proof -
  define hd where "hd = sqrt (w * w + h * h) / 2"
  define x' where "x' = max hd (min (real (canvas_width s) - hd) (fst pos - fst (dragOffset s)))"
  define y' where "y' = max hd (min (real (canvas_height s) - hd) (snd pos - snd (dragOffset s)))"
  have hd2: "sqrt (w\<^sup>2 + h\<^sup>2) / 2 = hd"
    by (simp add: hd_def power2_eq_square)
  have s': "s' = moveDragged pos i s"
    using assms(1,2,6) by (rule gesture_move_dragged)
  have box: "redactionBoxes s' ! i = Rotated x' y' w h a"
    using assms(2,3) by (simp add: s' moveDragged_fields Let_def x'_def y'_def hd_def)
  have dims: "canvas_width s' = canvas_width s" "canvas_height s' = canvas_height s"
    by (simp_all add: s' moveDragged_fields)
  have in_x: "hd \<le> x'" "x' \<le> real (canvas_width s) - hd"
    using assms(4) by (simp_all add: x'_def hd2)
  have in_y: "hd \<le> y'" "y' \<le> real (canvas_height s) - hd"
    using assms(5) by (simp_all add: y'_def hd2)
  have inside: "0 \<le> px \<and> px \<le> real (canvas_width s') \<and> 0 \<le> py \<and> py \<le> real (canvas_height s')"
    if hit: "containsPoint px py (Rotated x' y' w h \<theta>)" for \<theta> px py
  proof -
    have "\<bar>px - x'\<bar> \<le> hd" "\<bar>py - y'\<bar> \<le> hd"
      using containsPoint_Rotated_coords [OF hit] by (simp_all add: halfDiag_def hd_def)
    with in_x in_y show ?thesis unfolding dims by linarith
  qed
  from box dims in_x in_y inside show ?thesis
    unfolding hd2 by blast
qed

text \<open>
  A 300 by 400 rotated box (half-diagonal 250) on the 1000 by 1000 canvas, dragged far to
  the lower right with the mouse and far to the upper left with one finger; the lower right
  corner of the box, where the mouse left it, is on the canvas.
\<close>

theorem rotated_clamp_keeps_box_on_canvas_witness:
  "redactionBoxes (mousemove (2000, 3000) (stateDragging 0)) ! 0 = Rotated 750 750 300 400 0 \<and>
   redactionBoxes (touchmove (-50, -70) 1 (stateDragging 0)) ! 0 = Rotated 250 250 300 400 0 \<and>
   containsPoint 900 950 (Rotated 750 750 300 400 0) \<and>
   (0::real) \<le> 900 \<and> (900::real) \<le> 1000 \<and> (0::real) \<le> 950 \<and> (950::real) \<le> 1000"
proof -
  let ?s = "stateDragging 0"
  let ?s' = "mousemove (2000, 3000) ?s"
  have moved: "redactionBoxes ?s' ! 0 = Rotated 750 750 300 400 0"
    by (simp add: mousemove_def stateDragging_fields moveDragged_fields sqrt_250000)
  have touched: "redactionBoxes (touchmove (-50, -70) 1 ?s) ! 0 = Rotated 250 250 300 400 0"
    by (simp add: touchmove_def stateDragging_fields moveDragged_fields sqrt_250000)
  have "\<exists>x' y'. redactionBoxes ?s' ! 0 = Rotated x' y' 300 400 0 \<and>
           canvas_width ?s' = canvas_width ?s \<and> canvas_height ?s' = canvas_height ?s \<and>
           sqrt (300\<^sup>2 + 400\<^sup>2) / 2 \<le> x' \<and> x' \<le> real (canvas_width ?s) - sqrt (300\<^sup>2 + 400\<^sup>2) / 2 \<and>
           sqrt (300\<^sup>2 + 400\<^sup>2) / 2 \<le> y' \<and> y' \<le> real (canvas_height ?s) - sqrt (300\<^sup>2 + 400\<^sup>2) / 2 \<and>
           (\<forall>\<theta> px py. containsPoint px py (Rotated x' y' 300 400 \<theta>) \<longrightarrow>
              0 \<le> px \<and> px \<le> real (canvas_width ?s') \<and> 0 \<le> py \<and> py \<le> real (canvas_height ?s'))"
    by (rule rotated_clamp_keeps_box_on_canvas [where i = 0 and x = 500 and y = 400
          and pos = "(2000, 3000)"])
       (simp_all add: stateDragging_fields sqrt_250000)
  then obtain x' y' where
    box: "redactionBoxes ?s' ! 0 = Rotated x' y' 300 400 0"
    and width: "canvas_width ?s' = canvas_width ?s"
    and height: "canvas_height ?s' = canvas_height ?s"
    and inside: "\<forall>\<theta> px py. containsPoint px py (Rotated x' y' 300 400 \<theta>) \<longrightarrow>
              0 \<le> px \<and> px \<le> real (canvas_width ?s') \<and> 0 \<le> py \<and> py \<le> real (canvas_height ?s')"
    by blast
  from box moved have centre: "x' = 750" "y' = 750" by simp_all
  have extents: "real (canvas_width ?s') = 1000" "real (canvas_height ?s') = 1000"
    by (simp_all add: width height stateDragging_fields)
  have corner: "containsPoint 900 950 (Rotated 750 750 300 400 0)"
    by simp
  with inside [unfolded centre extents]
  have "(0::real) \<le> 900 \<and> (900::real) \<le> 1000 \<and> (0::real) \<le> 950 \<and> (950::real) \<le> 1000"
    by blast
  with moved touched corner show ?thesis by (intro conjI) simp_all
qed

text \<open>
  C10. When the clamp interval of an axis is empty the lower bound wins, the lower bound
  being applied last: after a move of the mouse, or of a single touch, a held standard box
  wider than the canvas has \<open>x = 0\<close> and one taller than the canvas has \<open>y = 0\<close>; a held
  rotated box with \<open>2 * halfDiag\<close> above the canvas width has its centre at \<open>x = halfDiag\<close>,
  and one with \<open>2 * halfDiag\<close> above the canvas height at \<open>y = halfDiag\<close>; wherever the
  pointer is.
\<close>

theorem empty_clamp_interval_lower_bound:
  assumes "draggedBox s = Some i" and "i < length (redactionBoxes s)"
    and "s' = mousemove pos s \<or> s' = touchmove pos 1 s"
  shows "(\<forall>x y w h. redactionBoxes s ! i = Standard x y w h \<longrightarrow>
            (w > real (canvas_width s) \<longrightarrow> box_x (redactionBoxes s' ! i) = 0) \<and>
            (h > real (canvas_height s) \<longrightarrow> box_y (redactionBoxes s' ! i) = 0)) \<and>
         (\<forall>x y w h a. redactionBoxes s ! i = Rotated x y w h a \<longrightarrow>
            (2 * (sqrt (w\<^sup>2 + h\<^sup>2) / 2) > real (canvas_width s) \<longrightarrow>
               box_x (redactionBoxes s' ! i) = sqrt (w\<^sup>2 + h\<^sup>2) / 2) \<and>
            (2 * (sqrt (w\<^sup>2 + h\<^sup>2) / 2) > real (canvas_height s) \<longrightarrow>
               box_y (redactionBoxes s' ! i) = sqrt (w\<^sup>2 + h\<^sup>2) / 2))"
proof -
  have s': "s' = moveDragged pos i s"
    using assms by (rule gesture_move_dragged)
  show ?thesis
    using assms(2)
    by (auto simp: s' moveDragged_fields Let_def power2_eq_square)
qed

text \<open>
  A standard box 1200 wide and a rotated box 900 by 1200 (half-diagonal 750) on the 1000 by
  1000 canvas, each moved to two different pointer positions.
\<close>

theorem empty_clamp_interval_lower_bound_witness:
  "box_x (redactionBoxes (mousemove (640, 300) (stateDragging 1)) ! 1) = 0 \<and>
   box_x (redactionBoxes (touchmove (-8, 300) 1 (stateDragging 1)) ! 1) = 0 \<and>
   box_x (redactionBoxes (mousemove (640, 300) (stateDragging 2)) ! 2) = 750 \<and>
   box_y (redactionBoxes (touchmove (-8, 9000) 1 (stateDragging 2)) ! 2) = 750"
proof -
  have wide: "(1200::real) > real (canvas_width (stateDragging 1))"
    by (simp add: stateDragging_fields)
  have big: "2 * (sqrt (900\<^sup>2 + 1200\<^sup>2) / 2) > real (canvas_width (stateDragging 2))"
    "2 * (sqrt (900\<^sup>2 + 1200\<^sup>2) / 2) > real (canvas_height (stateDragging 2))"
    by (simp_all add: stateDragging_fields sqrt_2250000)
  have std: "redactionBoxes (stateDragging 1) ! 1 = Standard 10 10 1200 50"
    by (simp add: stateDragging_fields)
  have rot: "redactionBoxes (stateDragging 2) ! 2 = Rotated 500 500 900 1200 0"
    by (simp add: stateDragging_fields)
  have len: "1 < length (redactionBoxes (stateDragging 1))"
    "2 < length (redactionBoxes (stateDragging 2))"
    by (simp_all add: stateDragging_fields)
  have "box_x (redactionBoxes (mousemove (640, 300) (stateDragging 1)) ! 1) = 0"
    using empty_clamp_interval_lower_bound
            [of "stateDragging 1" 1 "mousemove (640, 300) (stateDragging 1)" "(640, 300)"]
          wide std len
    by (simp add: stateDragging_fields)
  moreover have "box_x (redactionBoxes (touchmove (-8, 300) 1 (stateDragging 1)) ! 1) = 0"
    using empty_clamp_interval_lower_bound
            [of "stateDragging 1" 1 "touchmove (-8, 300) 1 (stateDragging 1)" "(-8, 300)"]
          wide std len
    by (simp add: stateDragging_fields)
  moreover have "box_x (redactionBoxes (mousemove (640, 300) (stateDragging 2)) ! 2) = 750"
    using empty_clamp_interval_lower_bound
            [of "stateDragging 2" 2 "mousemove (640, 300) (stateDragging 2)" "(640, 300)"]
          big rot len
    by (simp add: stateDragging_fields sqrt_2250000)
  moreover have "box_y (redactionBoxes (touchmove (-8, 9000) 1 (stateDragging 2)) ! 2) = 750"
    using empty_clamp_interval_lower_bound
            [of "stateDragging 2" 2 "touchmove (-8, 9000) 1 (stateDragging 2)" "(-8, 9000)"]
          big rot len
    by (simp add: stateDragging_fields sqrt_2250000)
  ultimately show ?thesis by blast
qed

section \<open>Properties of the detection pass\<close>

lemma pushBoxes_entries_objects:
  "pushBoxes_entries cw ch (map Some dets) boxes = BoxesDone (pushBoxes cw ch dets boxes)"
  by (induction dets arbitrary: boxes) simp_all

lemma calculateRedactionBoxes_entries_objects:
  "calculateRedactionBoxes_entries cw ch (map Some dets) =
     BoxesDone (calculateRedactionBoxes cw ch dets)"
  by (simp add: calculateRedactionBoxes_entries_def calculateRedactionBoxes_def
      pushBoxes_entries_objects)

lemma pushBoxes_entries_null:
  "pushBoxes_entries cw ch (map Some good @ None # rest) boxes =
     BoxesThrown (pushBoxes cw ch good boxes)"
  by (induction good arbitrary: boxes) simp_all

lemma calculateRedactionBoxes_entries_null:
  "calculateRedactionBoxes_entries cw ch (map Some good @ None # rest) =
     BoxesThrown (calculateRedactionBoxes cw ch good)"
  by (simp add: calculateRedactionBoxes_entries_def calculateRedactionBoxes_def
      pushBoxes_entries_null)

lemma pushBoxes_entries_Thrown:
  "pushBoxes_entries cw ch ds boxes = BoxesThrown bs \<Longrightarrow>
     \<exists>good rest. ds = map Some good @ None # rest \<and> bs = pushBoxes cw ch good boxes"
proof (induction cw ch ds boxes rule: pushBoxes_entries.induct)
  case (1 cw ch boxes)
  then show ?case by simp
next
  case (2 cw ch dets boxes)
  then have "None # dets = map Some [] @ None # dets \<and> bs = pushBoxes cw ch [] boxes"
    by simp
  then show ?case by blast
next
  case (3 cw ch det dets boxes)
  then obtain good rest where
    "dets = map Some good @ None # rest"
    "bs = pushBoxes cw ch good (boxes @ boxesFor cw ch det)"
    by auto
  then have "Some det # dets = map Some (det # good) @ None # rest \<and>
             bs = pushBoxes cw ch (det # good) boxes"
    by simp
  then show ?case by blast
qed

lemma calculateRedactionBoxes_entries_Thrown:
  "calculateRedactionBoxes_entries cw ch ds = BoxesThrown bs \<Longrightarrow>
     \<exists>good rest. ds = map Some good @ None # rest \<and> bs = calculateRedactionBoxes cw ch good"
  unfolding calculateRedactionBoxes_entries_def calculateRedactionBoxes_def
  by (rule pushBoxes_entries_Thrown)

lemma stateRedacted_eq:
  "stateRedacted = stateLoaded
     \<lparr>ctx := \<lparr>bitmap = Some 0, overlay = [FillRect (Standard 120 140 160 40)]\<rparr>,
      detections := [Some detFace], redactionBoxes := [Standard 120 140 160 40],
      status := (''Redacted 1 face'', False), downloadBtn_disabled := False\<rparr>"
  by (simp add: stateRedacted_def detectBtn_click_def detect_try_def setStatus_def Let_def
      stateLoaded_def calculateRedactionBoxes_entries_def boxesFor_detFace putImageData_def
      drawRedactionBoxes_def plural_def)

lemma stateRedacted_guards:
  "detector stateRedacted" "canvas_width stateRedacted \<noteq> 0" "canvas_height stateRedacted \<noteq> 0"
  by (simp_all add: stateRedacted_eq stateLoaded_def)

lemma detect_try_detector_throws:
  "detect_try DetectThrows s = Thrown (s\<lparr>status := (''Detecting faces...'', False)\<rparr>)"
  by (simp add: detect_try_def setStatus_def)

lemma detect_try_null_entry:
  assumes "originalImageData s = Some im"
  shows "detect_try (DetectReturns (Some (map Some good @ None # rest))) s =
           Thrown (s\<lparr>status := (''Detecting faces...'', False),
                     detections := map Some good @ None # rest,
                     ctx := putImageData im (ctx s),
                     redactionBoxes :=
                       calculateRedactionBoxes (canvas_width s) (canvas_height s) good\<rparr>)"
  using assms
  by (simp add: detect_try_def setStatus_def Let_def calculateRedactionBoxes_entries_null)

lemma detect_try_Thrown:
  assumes "detect_try outcome s = Thrown t"
  shows "(outcome = DetectThrows \<and> t = s\<lparr>status := (''Detecting faces...'', False)\<rparr>) \<or>
         (\<exists>ds. outcome = DetectReturns (Some ds) \<and> ds \<noteq> [] \<and> originalImageData s = None \<and>
               t = s\<lparr>status := (''Detecting faces...'', False), detections := ds\<rparr>) \<or>
         (\<exists>ds im good rest.
               outcome = DetectReturns (Some ds) \<and> originalImageData s = Some im \<and>
               ds = map Some good @ None # rest \<and>
               t = s\<lparr>status := (''Detecting faces...'', False), detections := ds,
                     ctx := putImageData im (ctx s),
                     redactionBoxes :=
                       calculateRedactionBoxes (canvas_width s) (canvas_height s) good\<rparr>)"
proof (cases outcome)
  case DetectThrows
  with assms show ?thesis
    by (simp add: detect_try_def setStatus_def)
next
  case (DetectReturns result)
  show ?thesis
  proof (cases result)
    case None
    with assms DetectReturns show ?thesis
      by (simp add: detect_try_def setStatus_def)
  next
    case (Some ds)
    note result = this
    show ?thesis
    proof (cases "ds = []")
      case True
      with assms DetectReturns result show ?thesis
        by (simp add: detect_try_def setStatus_def)
    next
      case False
      note nonempty = this
      show ?thesis
      proof (cases "originalImageData s")
        case None
        with assms DetectReturns result nonempty show ?thesis
          by (auto simp: detect_try_def setStatus_def)
      next
        case (Some im)
        note image = this
        show ?thesis
        proof (cases "calculateRedactionBoxes_entries (canvas_width s) (canvas_height s) ds")
          case (BoxesDone boxes)
          with assms DetectReturns result nonempty image show ?thesis
            by (simp add: detect_try_def setStatus_def Let_def split: if_splits)
        next
          case (BoxesThrown boxes)
          then obtain good rest where
            ds: "ds = map Some good @ None # rest"
            and boxes: "boxes = calculateRedactionBoxes (canvas_width s) (canvas_height s) good"
            using calculateRedactionBoxes_entries_Thrown by blast
          have "t = s\<lparr>status := (''Detecting faces...'', False), detections := ds,
                     ctx := putImageData im (ctx s), redactionBoxes := boxes\<rparr>"
            using assms DetectReturns result nonempty image BoxesThrown
            by (simp add: detect_try_def setStatus_def Let_def)
          with DetectReturns result image ds boxes show ?thesis
            by blast
        qed
      qed
    qed
  qed
qed

text \<open>
  C8, as the program has it. With a detector and a canvas of non-zero size, an exception
  thrown anywhere inside the \<open>try\<close> block is caught by the handler, which reports the error
  status \<open>Error processing image\<close>. Nothing is rolled back: the handler ends in the state
  reached at the throw, with that status. When the detector call throws, that state is the
  one before the click. When the restore of the image throws, \<open>detections\<close> holds the new
  list already. When the box calculation throws, on a null entry of the new list,
  \<open>detections\<close> holds the new list, the surface shows the original image with no box
  drawn, and the box set holds the boxes of the entries before the null one.
\<close>

theorem exception_caught_without_rollback:
  assumes "detector s" and "canvas_width s \<noteq> 0" and "canvas_height s \<noteq> 0"
    and "detect_try outcome s = Thrown t"
  shows "detectBtn_click outcome s = t\<lparr>status := (''Error processing image'', True)\<rparr> \<and>
         ((outcome = DetectThrows \<and>
           detectBtn_click outcome s = s\<lparr>status := (''Error processing image'', True)\<rparr>) \<or>
          (\<exists>ds. outcome = DetectReturns (Some ds) \<and> ds \<noteq> [] \<and> originalImageData s = None \<and>
             detectBtn_click outcome s =
               s\<lparr>detections := ds, status := (''Error processing image'', True)\<rparr>) \<or>
          (\<exists>ds im good rest.
             outcome = DetectReturns (Some ds) \<and> originalImageData s = Some im \<and>
             ds = map Some good @ None # rest \<and>
             detectBtn_click outcome s =
               s\<lparr>ctx := putImageData im (ctx s), detections := ds,
                  redactionBoxes :=
                    calculateRedactionBoxes (canvas_width s) (canvas_height s) good,
                  status := (''Error processing image'', True)\<rparr>))"
proof -
  have click: "detectBtn_click outcome s = t\<lparr>status := (''Error processing image'', True)\<rparr>"
    using assms by (simp add: detectBtn_click_def setStatus_def)
  from detect_try_Thrown [OF assms(4)]
  consider
    (detect) "outcome = DetectThrows" "t = s\<lparr>status := (''Detecting faces...'', False)\<rparr>"
  | (restore) ds where "outcome = DetectReturns (Some ds)" "ds \<noteq> []"
      "originalImageData s = None"
      "t = s\<lparr>status := (''Detecting faces...'', False), detections := ds\<rparr>"
  | (compute) ds im good rest where "outcome = DetectReturns (Some ds)"
      "originalImageData s = Some im" "ds = map Some good @ None # rest"
      "t = s\<lparr>status := (''Detecting faces...'', False), detections := ds,
             ctx := putImageData im (ctx s),
             redactionBoxes :=
               calculateRedactionBoxes (canvas_width s) (canvas_height s) good\<rparr>"
    by blast
  then show ?thesis
  proof cases
    case detect
    then have "detectBtn_click outcome s = s\<lparr>status := (''Error processing image'', True)\<rparr>"
      unfolding click by simp
    with click detect(1) show ?thesis by blast
  next
    case restore
    then have "detectBtn_click outcome s =
                 s\<lparr>detections := ds, status := (''Error processing image'', True)\<rparr>"
      unfolding click by simp
    with click restore(1,2,3) show ?thesis by blast
  next
    case compute
    then have "detectBtn_click outcome s =
                 s\<lparr>ctx := putImageData im (ctx s), detections := ds,
                    redactionBoxes :=
                      calculateRedactionBoxes (canvas_width s) (canvas_height s) good,
                    status := (''Error processing image'', True)\<rparr>"
      unfolding click by simp
    with click compute(1,2,3) show ?thesis by blast
  qed
qed

text \<open>
  On the redacted image the detector throws: only the status line changes. On the same
  image the detector returns a face with eyes followed by a null entry: the surface is back
  to the image without boxes and the box set holds the box of the first entry alone.
\<close>

theorem exception_caught_without_rollback_witness:
  "detectBtn_click DetectThrows stateRedacted =
     stateRedacted\<lparr>status := (''Error processing image'', True)\<rparr> \<and>
   detectBtn_click (DetectReturns (Some [Some detEyes, None])) stateRedacted =
     stateRedacted
       \<lparr>ctx := \<lparr>bitmap = Some 0, overlay = []\<rparr>, detections := [Some detEyes, None],
        redactionBoxes := [Rotated 500 400 500 100 0],
        status := (''Error processing image'', True)\<rparr>"
proof -
  have thrown: "detect_try DetectThrows stateRedacted =
                  Thrown (stateRedacted\<lparr>status := (''Detecting faces...'', False)\<rparr>)"
    by (rule detect_try_detector_throws)
  have image: "originalImageData stateRedacted = Some 0"
    by (simp add: stateRedacted_eq stateLoaded_def)
  have thrown': "detect_try (DetectReturns (Some [Some detEyes, None])) stateRedacted =
                  Thrown (stateRedacted
                            \<lparr>status := (''Detecting faces...'', False),
                             detections := [Some detEyes, None],
                             ctx := putImageData 0 (ctx stateRedacted),
                             redactionBoxes := [Rotated 500 400 500 100 0]\<rparr>)"
    using detect_try_null_entry [OF image, of "[detEyes]" "[]"]
    by (simp add: calculateRedactionBoxes_def boxesFor_detEyes stateRedacted_eq stateLoaded_def)
  have "detectBtn_click DetectThrows stateRedacted =
          stateRedacted\<lparr>status := (''Error processing image'', True)\<rparr>"
    using exception_caught_without_rollback [OF stateRedacted_guards thrown] by simp
  moreover have "detectBtn_click (DetectReturns (Some [Some detEyes, None])) stateRedacted =
     stateRedacted
       \<lparr>ctx := \<lparr>bitmap = Some 0, overlay = []\<rparr>, detections := [Some detEyes, None],
        redactionBoxes := [Rotated 500 400 500 100 0],
        status := (''Error processing image'', True)\<rparr>"
    using exception_caught_without_rollback [OF stateRedacted_guards thrown', THEN conjunct1]
    by (simp add: putImageData_def stateRedacted_eq stateLoaded_def)
  ultimately show ?thesis by (rule conjI)
qed

text \<open>
  C8 as the specification words it fails. The second pass of the witness throws in the box
  calculation, after the image has been restored and the box set emptied: the box of the
  first pass is gone from the box set and from the surface, the box set holds a box that is
  not drawn, and \<open>detections\<close> holds the new list.
\<close>

theorem exception_in_box_calculation_partial_update:
  "redactionBoxes stateRedacted = [Standard 120 140 160 40] \<and>
   overlay (ctx stateRedacted) = [FillRect (Standard 120 140 160 40)] \<and>
   detections stateRedacted = [Some detFace] \<and>
   status (detectBtn_click (DetectReturns (Some [Some detEyes, None])) stateRedacted) =
     (''Error processing image'', True) \<and>
   redactionBoxes (detectBtn_click (DetectReturns (Some [Some detEyes, None])) stateRedacted) =
     [Rotated 500 400 500 100 0] \<and>
   overlay (ctx (detectBtn_click (DetectReturns (Some [Some detEyes, None])) stateRedacted)) = [] \<and>
   detections (detectBtn_click (DetectReturns (Some [Some detEyes, None])) stateRedacted) =
     [Some detEyes, None]"
  by (simp add: stateRedacted_eq stateLoaded_def detectBtn_click_def detect_try_def
      setStatus_def Let_def calculateRedactionBoxes_entries_def boxesFor_detEyes
      putImageData_def)

text \<open>
  C9, as the program has it. The calculator returns the empty list on the empty list.
  With a detector and a canvas of non-zero size, a detection pass that returns no
  detections (an empty list, or no list at all) ends with the status \<open>No faces detected\<close>,
  not flagged as an error, and with \<open>detections\<close> empty; the box set and the drawing
  surface, like every other variable, are left as they were.
\<close>

theorem no_faces_keeps_box_set:
  assumes "detector s" and "canvas_width s \<noteq> 0" and "canvas_height s \<noteq> 0"
    and "outcome = DetectReturns (Some []) \<or> outcome = DetectReturns None"
  shows "calculateRedactionBoxes (canvas_width s) (canvas_height s) [] = [] \<and>
         detectBtn_click outcome s =
           s\<lparr>detections := [], status := (''No faces detected'', False)\<rparr> \<and>
         redactionBoxes (detectBtn_click outcome s) = redactionBoxes s \<and>
         ctx (detectBtn_click outcome s) = ctx s"
  using assms
  by (auto simp: calculateRedactionBoxes_def detectBtn_click_def detect_try_def setStatus_def)

theorem no_faces_keeps_box_set_witness:
  "detectBtn_click (DetectReturns None) stateLoaded =
     stateLoaded\<lparr>detections := [], status := (''No faces detected'', False)\<rparr> \<and>
   redactionBoxes (detectBtn_click (DetectReturns None) stateLoaded) = []"
  using no_faces_keeps_box_set [of stateLoaded "DetectReturns None"]
  by (simp add: stateLoaded_def)

text \<open>
  C9 as the specification words it fails. A second pass over the redacted image that finds no face
  reports \<open>No faces detected\<close> and leaves the box of the first pass in the box set.
\<close>

theorem no_faces_box_set_not_cleared:
  "status (detectBtn_click (DetectReturns (Some [])) stateRedacted) = (''No faces detected'', False) \<and>
   redactionBoxes (detectBtn_click (DetectReturns (Some [])) stateRedacted) =
     [Standard 120 140 160 40]"
  by (simp add: stateRedacted_eq stateLoaded_def detectBtn_click_def detect_try_def setStatus_def)

end
